theory Spec2Isabelle
  imports Main
begin

section \<open>Python values, strings and dictionaries\<close>

text \<open>
  The health check of \<^verbatim>\<open>roles/torrenter/files/transmission-healthcheck/check.py\<close>
  handles values decoded from JSON and renders them into messages with f-strings.
  The values modelled are the scalar ones: \<^verbatim>\<open>None\<close>, booleans, (unbounded)
  integers and strings. Floats, lists and nested objects as field values are not
  modelled. A Python \<^verbatim>\<open>str\<close> is a \<open>string\<close>; one \<open>char\<close> stands for one code
  point, so \<open>length\<close> is Python's \<^verbatim>\<open>len\<close> for texts of code points below 256.
\<close>

datatype pyval = PNone | PBool bool | PInt int | PStr string

text \<open>A \<^verbatim>\<open>dict\<close> with string keys, in insertion order.\<close>

type_synonym pydict = "(string \<times> pyval) list"

text \<open>Truth value testing: \<^verbatim>\<open>None\<close>, \<^verbatim>\<open>False\<close>, \<^verbatim>\<open>0\<close> and \<^verbatim>\<open>""\<close> are falsy.\<close>

fun truthy :: "pyval \<Rightarrow> bool" where
  "truthy PNone = False"
| "truthy (PBool b) = b"
| "truthy (PInt i) = (i \<noteq> 0)"
| "truthy (PStr s) = (s \<noteq> [])"

text \<open>\<^verbatim>\<open>a or b\<close>: the first operand when it is truthy, the second otherwise.\<close>

definition py_or :: "pyval \<Rightarrow> pyval \<Rightarrow> pyval" where
  "py_or a b = (if truthy a then a else b)"

text \<open>\<^verbatim>\<open>a == b\<close>: a \<^verbatim>\<open>bool\<close> is an \<^verbatim>\<open>int\<close> in Python, so \<^verbatim>\<open>True == 1\<close>.\<close>

fun int_of_bool :: "bool \<Rightarrow> int" where
  "int_of_bool True = 1"
| "int_of_bool False = 0"

fun py_eq :: "pyval \<Rightarrow> pyval \<Rightarrow> bool" where
  "py_eq (PBool b) (PInt i) = (int_of_bool b = i)"
| "py_eq (PInt i) (PBool b) = (i = int_of_bool b)"
| "py_eq a b = (a = b)"

text \<open>\<^verbatim>\<open>str(n)\<close> for an integer: decimal digits, with a minus sign when negative.\<close>

fun str_nat :: "nat \<Rightarrow> string" where
  "str_nat n =
     (if n < 10 then [''0123456789'' ! n]
      else str_nat (n div 10) @ [''0123456789'' ! (n mod 10)])"

declare str_nat.simps [simp del]

definition str_int :: "int \<Rightarrow> string" where
  "str_int i = (if i < 0 then CHR ''-'' # str_nat (nat (- i)) else str_nat (nat i))"

text \<open>What an f-string field \<^verbatim>\<open>{v}\<close> renders: \<^verbatim>\<open>str(v)\<close>.\<close>

fun py_str :: "pyval \<Rightarrow> string" where
  "py_str PNone = ''None''"
| "py_str (PBool b) = (if b then ''True'' else ''False'')"
| "py_str (PInt i) = str_int i"
| "py_str (PStr s) = s"

text \<open>\<^verbatim>\<open>d.get(k)\<close> and \<^verbatim>\<open>d.get(k, default)\<close>.\<close>

definition dict_get_default :: "pydict \<Rightarrow> string \<Rightarrow> pyval \<Rightarrow> pyval" where
  "dict_get_default d k dflt = (case map_of d k of None \<Rightarrow> dflt | Some v \<Rightarrow> v)"

definition dict_get :: "pydict \<Rightarrow> string \<Rightarrow> pyval" where
  "dict_get d k = dict_get_default d k PNone"

text \<open>The slice \<^verbatim>\<open>s[:n]\<close>; a negative \<open>n\<close> counts from the end.\<close>

definition slice_to :: "string \<Rightarrow> int \<Rightarrow> string" where
  "slice_to s n = (if n < 0 then take (length s - nat (- n)) s else take (nat n) s)"

text \<open>\<^verbatim>\<open>len(s)\<close> as a Python integer.\<close>

definition len :: "string \<Rightarrow> int" where
  "len s = int (length s)"

section \<open>HealthcheckError and its two messages\<close>

text \<open>
  The exception class carries a message and four optional attributes, all
  defaulting to \<^verbatim>\<open>None\<close>.
\<close>

record HealthcheckError =
  message :: string
  diag_context :: "string option"
  torrent :: "pydict option"
  mismatch_ports :: "pydict option"
  portcheck_error :: "pydict option"

text \<open>
  \<^verbatim>\<open>if self.torrent:\<close> and its siblings test an attribute that is \<^verbatim>\<open>None\<close> or a
  dict: the branch is taken for a dict that is not empty. \<open>present\<close> gives that
  dict.
\<close>

fun present :: "pydict option \<Rightarrow> pydict option" where
  "present None = None"
| "present (Some d) = (if d = [] then None else Some d)"

text \<open>\<^verbatim>\<open>{self.diag_context}\<close> in an f-string, and \<^verbatim>\<open>if self.diag_context:\<close>.\<close>

fun str_context :: "string option \<Rightarrow> string" where
  "str_context None = ''None''"
| "str_context (Some c) = c"

fun context_truthy :: "string option \<Rightarrow> bool" where
  "context_truthy None = False"
| "context_truthy (Some c) = (c \<noteq> [])"

definition portcheck_detail :: "pydict \<Rightarrow> pyval" where
  "portcheck_detail pe = py_or (dict_get pe ''content'') (dict_get pe ''exception'')"

definition full_message :: "HealthcheckError \<Rightarrow> string" where
  "full_message e =
     (case present (portcheck_error e) of
        Some pe \<Rightarrow>
          message e @ ''('' @ py_str (portcheck_detail pe) @ '') | '' @ str_context (diag_context e)
      | None \<Rightarrow>
     (case present (mismatch_ports e) of
        Some mp \<Rightarrow>
          message e @ ''(G:'' @ py_str (dict_get mp ''gluetun'') @ ''|T:''
            @ py_str (dict_get mp ''transmission'') @ '') | '' @ str_context (diag_context e)
      | None \<Rightarrow>
     (case present (torrent e) of
        Some t \<Rightarrow>
          message e @ '' T:'' @ py_str (dict_get t ''id'') @ ''('' @ py_str (dict_get t ''name'')
            @ '') - '' @ py_str (dict_get t ''errorString'') @ '' | '' @ str_context (diag_context e)
      | None \<Rightarrow>
          if context_truthy (diag_context e)
          then message e @ '' | '' @ str_context (diag_context e)
          else message e)))"

text \<open>The torrent branch of \<^verbatim>\<open>hc_message\<close>, lines 65 to 85.\<close>

definition hc_torrent :: "string \<Rightarrow> pydict \<Rightarrow> string" where
  "hc_torrent p1 t =
     (let p2 = '' T:'' @ py_str (dict_get t ''id'') @ ''('' @ py_str (dict_get t ''name'') @ '')'';
          p3 = '': '' @ py_str (dict_get t ''errorString'');
          msg = p1 @ p2 @ p3
      in if len msg \<le> 100 then msg
         else
           let available_len = 100 - len (p1 @ p2)
           in if available_len > 4 then p1 @ p2 @ (slice_to p3 (available_len - 3) @ ''...'')
              else
                let p2_trunc = '' T:'' @ py_str (dict_get t ''id'');
                    available_len = 100 - len (p1 @ p2_trunc)
                in if available_len > 4
                   then p1 @ p2_trunc @ (slice_to p3 (available_len - 3) @ ''...'')
                   else slice_to (p1 @ p2_trunc) 100)"

definition hc_message :: "HealthcheckError \<Rightarrow> string" where
  "hc_message e =
     (let full_msg = full_message e
      in if len full_msg \<le> 100 then full_msg
         else
     (case present (portcheck_error e) of
        Some pe \<Rightarrow>
          (let msg = message e @ (''('' @ py_str (portcheck_detail pe) @ '')'')
           in if len msg \<le> 100 then msg else slice_to msg 100)
      | None \<Rightarrow>
     (case present (mismatch_ports e) of
        Some mp \<Rightarrow>
          (let msg = message e @ (''(G:'' @ py_str (dict_get mp ''gluetun'') @ ''|T:''
                       @ py_str (dict_get mp ''transmission'') @ '')'')
           in if len msg \<le> 100 then msg else slice_to msg 100)
      | None \<Rightarrow>
     (case present (torrent e) of
        Some t \<Rightarrow> hc_torrent (message e) t
      | None \<Rightarrow> slice_to full_msg 97 @ ''...''))))"

section \<open>HTTP replies and the exceptions of a cycle\<close>

text \<open>
  What a call of the \<^verbatim>\<open>requests\<close> library gives back: either the call raises a
  \<^verbatim>\<open>requests.RequestException\<close> (connection refused, timeout, ...; the class name
  and the text of the exception are kept), or it returns a response. Of a response
  the model keeps the status code, the \<^verbatim>\<open>X-Transmission-Session-Id\<close> header, the
  text of the \<^verbatim>\<open>HTTPError\<close> that \<^verbatim>\<open>raise_for_status()\<close> would raise, and the body
  (the text, or the decoded JSON document; a body that does not decode is not
  modelled).
\<close>

record 'b response =
  status_code :: int
  session_id_header :: "string option"
  error_text :: string
  body :: 'b

datatype 'b reply = Failed string string | Replied "'b response"

text \<open>
  \<^verbatim>\<open>response.raise_for_status()\<close> of the \<^verbatim>\<open>requests\<close> library raises
  \<^verbatim>\<open>HTTPError\<close> for the status codes 400 to 599 and returns for all others.
\<close>

definition raises_for_status :: "'b response \<Rightarrow> bool" where
  "raises_for_status r = (400 \<le> status_code r \<and> status_code r < 600)"

text \<open>
  The exceptions that reach the handlers of \<^verbatim>\<open>main\<close>. \<open>RequestException\<close>
  stands for the \<^verbatim>\<open>requests\<close> exceptions other than \<^verbatim>\<open>HTTPError\<close>, with class name
  and text; \<open>ConnectionError\<close>, \<open>ValueError\<close> and \<open>KeyError\<close> are the builtins.
  \<open>is_HealthcheckErr\<close> is the test of the first \<^verbatim>\<open>except\<close> clause.
\<close>

datatype exn =
    is_HealthcheckErr: HealthcheckErr HealthcheckError
  | RequestException string string
  | HTTPError int string
  | ConnectionError string
  | ValueError string
  | KeyError string

text \<open>
  \<^verbatim>\<open>str(e)\<close>. The constructor of \<^verbatim>\<open>HealthcheckError\<close> passes the full message to
  \<^verbatim>\<open>Exception.__init__\<close>; \<^verbatim>\<open>str\<close> of a \<^verbatim>\<open>KeyError\<close> is the \<^verbatim>\<open>repr\<close> of the key.
\<close>

fun exn_str :: "exn \<Rightarrow> string" where
  "exn_str (HealthcheckErr e) = full_message e"
| "exn_str (RequestException n m) = m"
| "exn_str (HTTPError c m) = m"
| "exn_str (ConnectionError m) = m"
| "exn_str (ValueError m) = m"
| "exn_str (KeyError k) = [CHR 0x27] @ k @ [CHR 0x27]"

section \<open>The Transmission RPC client\<close>

text \<open>
  A request to the daemon carries the \<^verbatim>\<open>X-Transmission-Session-Id\<close> header of the
  session, if it has one; a POST carries the payload (method and arguments) too.
  The daemon is any function from the requests sent so far, the current one last,
  to the reply to it. The list of requests sent is threaded through every call, so
  that each request made is on record.
\<close>

type_synonym arguments = "(string \<times> string list) list"

datatype request = GET "string option" | POST "string option" string arguments

type_synonym 'j daemon = "request list \<Rightarrow> 'j reply"

text \<open>
  Of a \<^verbatim>\<open>requests.Session\<close> the model keeps the \<^verbatim>\<open>X-Transmission-Session-Id\<close> entry
  of its headers; a new session has none.
\<close>

type_synonym session = "string option"

text \<open>
  \<^verbatim>\<open>session.get\<close> does not call \<^verbatim>\<open>raise_for_status\<close>, so a 409 answer comes back as
  a response and the header is read from it on the last line of the function.
\<close>

definition get_transmission_session_id ::
  "'j daemon \<Rightarrow> session \<Rightarrow> request list \<Rightarrow> (exn + string option) \<times> request list" where
  "get_transmission_session_id d session log =
     (let log1 = log @ [GET session]
      in case d log1 of
           Failed n m \<Rightarrow>
             (Inl (ConnectionError
                (''Failed to connect to Transmission to get session ID: '' @ m)), log1)
         | Replied r \<Rightarrow> (Inr (session_id_header r), log1))"

text \<open>\<^verbatim>\<open>if not session_id\<close>: the header is absent or empty.\<close>

fun usable_id :: "string option \<Rightarrow> string option" where
  "usable_id None = None"
| "usable_id (Some sid) = (if sid = [] then None else Some sid)"

text \<open>Lines 149 to 168: the POST, and the single renewal on a 409.\<close>

definition post_rpc ::
  "'j daemon \<Rightarrow> string \<Rightarrow> request list \<Rightarrow> string \<Rightarrow> arguments
     \<Rightarrow> (exn + 'j) \<times> session \<times> request list" where
  "post_rpc d sid log method arguments =
     (let log1 = log @ [POST (Some sid) method arguments]
      in case d log1 of
           Failed n m \<Rightarrow>
             (Inl (ConnectionError (''Transmission RPC call '' @ [CHR 0x27] @ method
                @ [CHR 0x27] @ '' failed: '' @ m)), Some sid, log1)
         | Replied r \<Rightarrow>
             if raises_for_status r then
               if status_code r = 409 then
                 (case usable_id (session_id_header r) of
                    None \<Rightarrow>
                      (Inl (ValueError ''Could not renew expired Transmission Session ID.''),
                       Some sid, log1)
                  | Some session_id \<Rightarrow>
                      (let log2 = log1 @ [POST (Some session_id) method arguments]
                       in case d log2 of
                            Failed n m \<Rightarrow> (Inl (RequestException n m), Some session_id, log2)
                          | Replied r2 \<Rightarrow>
                              if raises_for_status r2
                              then (Inl (HTTPError (status_code r2) (error_text r2)),
                                    Some session_id, log2)
                              else (Inr (body r2), Some session_id, log2)))
               else (Inl (HTTPError (status_code r) (error_text r)), Some sid, log1)
             else (Inr (body r), Some sid, log1))"

definition run_transmission_rpc ::
  "'j daemon \<Rightarrow> session \<Rightarrow> request list \<Rightarrow> string \<Rightarrow> arguments
     \<Rightarrow> (exn + 'j) \<times> session \<times> request list" where
  "run_transmission_rpc d session log method arguments =
     (case session of
        Some sid \<Rightarrow> post_rpc d sid log method arguments
      | None \<Rightarrow>
          (case get_transmission_session_id d session log of
             (Inl x, log1) \<Rightarrow> (Inl x, session, log1)
           | (Inr hdr, log1) \<Rightarrow>
               (case usable_id hdr of
                  None \<Rightarrow>
                    (Inl (ValueError ''Could not retrieve Transmission Session ID.''),
                     session, log1)
                | Some session_id \<Rightarrow> post_rpc d session_id log1 method arguments)))"

section \<open>The external port check\<close>

text \<open>
  \<^verbatim>\<open>str.strip()\<close> removes leading and trailing whitespace; below code point 256
  these are tab, line feed, vertical tab, form feed, carriage return, the
  separators 0x1C to 0x1F, space, 0x85 and 0xA0.
\<close>

definition is_space :: "char \<Rightarrow> bool" where
  "is_space c = (c \<in> set [CHR 0x09, CHR 0x0A, CHR 0x0B, CHR 0x0C, CHR 0x0D, CHR 0x1C,
                           CHR 0x1D, CHR 0x1E, CHR 0x1F, CHR 0x20, CHR 0x85, CHR 0xA0])"

definition strip :: "string \<Rightarrow> string" where
  "strip s = rev (dropWhile is_space (rev (dropWhile is_space s)))"

text \<open>
  The service is a function from the URL requested to its reply. The result is
  the pair the source returns: \<^verbatim>\<open>(True, None)\<close>, \<^verbatim>\<open>(False, None)\<close> or \<^verbatim>\<open>(None, error_dict)\<close>.
\<close>

definition portcheck_url :: "pyval \<Rightarrow> string" where
  "portcheck_url port = ''https://portcheck.transmissionbt.com/'' @ py_str port"

definition check_external_port ::
  "(string \<Rightarrow> string reply) \<Rightarrow> pyval \<Rightarrow> bool option \<times> pydict option" where
  "check_external_port service port =
     (case service (portcheck_url port) of
        Failed n m \<Rightarrow>
          (None, Some [(''error'', PStr ''E:PORTCHECK_DOWN''), (''exception'', PStr n)])
      | Replied r \<Rightarrow>
          if raises_for_status r
          then (None, Some [(''error'', PStr ''E:PORTCHECK_DOWN''),
                            (''exception'', PStr ''HTTPError'')])
          else
            let content = strip (body r)
            in if content = ''1'' then (Some True, None)
               else if content = ''0'' then (Some False, None)
               else (None, Some [(''error'', PStr ''E:PORTCHECK_UNEXPECTED_RESP''),
                                 (''content'', PStr content)]))"

section \<open>One iteration of the main loop\<close>

text \<open>
  The JSON document of an RPC answer: its \<^verbatim>\<open>"arguments"\<close> object, if there is one,
  with its scalar entries and its \<^verbatim>\<open>"torrents"\<close> list, if there is one. Documents
  of another shape are not modelled.
\<close>

datatype rpc_args = RpcArgs (entries: pydict) (torrents: "pydict list option")

datatype rpc_json = RpcJson (json_arguments: "rpc_args option")

text \<open>\<^verbatim>\<open>data.get("arguments", {})\<close> and \<^verbatim>\<open>args.get("torrents", [])\<close>.\<close>

definition get_arguments :: "rpc_json \<Rightarrow> rpc_args" where
  "get_arguments j = (case json_arguments j of None \<Rightarrow> RpcArgs [] None | Some a \<Rightarrow> a)"

definition get_torrents :: "rpc_args \<Rightarrow> pydict list" where
  "get_torrents a = (case torrents a of None \<Rightarrow> [] | Some ts \<Rightarrow> ts)"

text \<open>
  What one iteration meets outside: the two answers of the gateway, the daemon
  and the port check service.
\<close>

record env =
  gluetun_portforward :: "pydict reply"
  gluetun_vpn :: "pydict reply"
  transmission :: "rpc_json daemon"
  portcheck :: "string \<Rightarrow> string reply"

text \<open>\<^verbatim>\<open>requests.get(...)\<close>, \<^verbatim>\<open>raise_for_status()\<close> and \<^verbatim>\<open>json()\<close> on a gateway endpoint.\<close>

definition gluetun_get :: "pydict reply \<Rightarrow> exn + pydict" where
  "gluetun_get rep =
     (case rep of
        Failed n m \<Rightarrow> Inl (RequestException n m)
      | Replied r \<Rightarrow>
          if raises_for_status r then Inl (HTTPError (status_code r) (error_text r))
          else Inr (body r))"

text \<open>
  Lines 233 to 255, step 4 of \<^verbatim>\<open>main\<close>: the diagnostic context and the checks.
  \<open>probe\<close> is the pair returned by \<^verbatim>\<open>check_external_port\<close>. The result is the
  exception raised, or the text of the success report.
\<close>

definition diagnostic_context_of ::
  "pyval \<Rightarrow> bool option \<Rightarrow> pyval \<Rightarrow> pyval \<Rightarrow> pyval \<Rightarrow> pyval \<Rightarrow> string" where
  "diagnostic_context_of transmission_port port_status_bool gluetun_vpn_status
       dl_speed ul_speed active_count =
     (let port_status_str = (if port_status_bool = Some True then ''OPEN'' else ''CLOSED'')
      in ''P:'' @ py_str transmission_port @ ''('' @ port_status_str @ '') VPN:''
           @ py_str gluetun_vpn_status @ '' | DL/UL:'' @ py_str dl_speed @ ''/''
           @ py_str ul_speed @ '' | Act:'' @ py_str active_count)"

text \<open>
  The exceptions constructed at lines 238, 245, 248 and 251, under the names the
  specification gives to these failures.
\<close>

definition PortCheckFailure :: "string \<Rightarrow> pydict \<Rightarrow> string \<Rightarrow> HealthcheckError" where
  "PortCheckFailure code port_check_error diagnostic_context =
     \<lparr>message = code, diag_context = Some diagnostic_context, torrent = None,
      mismatch_ports = None, portcheck_error = Some port_check_error\<rparr>"

definition PortMismatch :: "pyval \<Rightarrow> pyval \<Rightarrow> string \<Rightarrow> HealthcheckError" where
  "PortMismatch gluetun_port transmission_port diagnostic_context =
     \<lparr>message = ''E:MISMATCH'', diag_context = Some diagnostic_context, torrent = None,
      mismatch_ports = Some [(''gluetun'', gluetun_port), (''transmission'', transmission_port)],
      portcheck_error = None\<rparr>"

definition PortClosed :: "string \<Rightarrow> HealthcheckError" where
  "PortClosed diagnostic_context =
     \<lparr>message = ''E:CLOSED'', diag_context = Some diagnostic_context, torrent = None,
      mismatch_ports = None, portcheck_error = None\<rparr>"

definition SystemErrorTorrent :: "pydict \<Rightarrow> string \<Rightarrow> HealthcheckError" where
  "SystemErrorTorrent t diagnostic_context =
     \<lparr>message = ''E:SYS_ERR'', diag_context = Some diagnostic_context, torrent = Some t,
      mismatch_ports = None, portcheck_error = None\<rparr>"

text \<open>The two parse failures, lines 211 and 225: a message and nothing else.\<close>

definition ParseError :: "string \<Rightarrow> HealthcheckError" where
  "ParseError msg =
     \<lparr>message = msg, diag_context = None, torrent = None, mismatch_ports = None,
      portcheck_error = None\<rparr>"

definition perform_checks ::
  "pyval \<Rightarrow> pyval \<Rightarrow> pydict list \<Rightarrow> bool option \<times> pydict option \<Rightarrow> string
     \<Rightarrow> exn + string" where
  "perform_checks gluetun_port transmission_port system_error_torrents probe diagnostic_context =
     (let port_status_bool = fst probe;
          port_check_error = snd probe
      in case present port_check_error of
           Some pe \<Rightarrow>
             (case map_of pe ''error'' of
                None \<Rightarrow> Inl (KeyError ''error'')
              | Some code \<Rightarrow>
                  Inl (HealthcheckErr (PortCheckFailure (py_str code) pe diagnostic_context)))
         | None \<Rightarrow>
             if \<not> py_eq gluetun_port transmission_port
             then Inl (HealthcheckErr
                         (PortMismatch gluetun_port transmission_port diagnostic_context))
             else if port_status_bool \<noteq> Some True
             then Inl (HealthcheckErr (PortClosed diagnostic_context))
             else
               (case system_error_torrents of
                  t # rest \<Rightarrow> Inl (HealthcheckErr (SystemErrorTorrent t diagnostic_context))
                | [] \<Rightarrow> Inr (''OK | '' @ diagnostic_context)))"

text \<open>
  Lines 224 to 255: what \<^verbatim>\<open>main\<close> does with the three RPC answers once they are
  in: the peer port, the statistics, the torrents in system error (error code 3),
  the external port check, then the checks above.
\<close>

definition system_error_torrents_of :: "rpc_json \<Rightarrow> pydict list" where
  "system_error_torrents_of torrents_data =
     filter (\<lambda>t. py_eq (dict_get t ''error'') (PInt 3))
       (get_torrents (get_arguments torrents_data))"

definition examine ::
  "(string \<Rightarrow> string reply) \<Rightarrow> pyval \<Rightarrow> pyval \<Rightarrow> rpc_json \<Rightarrow> rpc_json \<Rightarrow> rpc_json
     \<Rightarrow> exn + string" where
  "examine service gluetun_port gluetun_vpn_status session_data session_stats torrents_data =
     (let transmission_port = dict_get (entries (get_arguments session_data)) ''peer-port'';
          stats_args = entries (get_arguments session_stats);
          active_count = dict_get_default stats_args ''activeTorrentCount'' (PStr ''N/A'');
          dl_speed = dict_get_default stats_args ''downloadSpeed'' (PStr ''N/A'');
          ul_speed = dict_get_default stats_args ''uploadSpeed'' (PStr ''N/A'')
      in if transmission_port = PNone
         then Inl (HealthcheckErr
                (ParseError ''E:TR_PARSE | Missing 'peer-port' in Transmission session data''))
         else
           let system_error_torrents = system_error_torrents_of torrents_data;
               probe = check_external_port service transmission_port
           in perform_checks gluetun_port transmission_port system_error_torrents probe
                (diagnostic_context_of transmission_port (fst probe) gluetun_vpn_status
                   dl_speed ul_speed active_count))"

text \<open>
  The body of the \<^verbatim>\<open>try\<close> statement, lines 197 to 255. The session is updated in
  place by the RPC client, so it is returned also when an exception is raised.
\<close>

definition main_try ::
  "env \<Rightarrow> session \<Rightarrow> request list \<Rightarrow> (exn + string) \<times> session \<times> request list" where
  "main_try env tr_session log =
     (case gluetun_get (gluetun_portforward env) of
        Inl x \<Rightarrow> (Inl x, tr_session, log)
      | Inr gluetun_port_data \<Rightarrow>
     (case gluetun_get (gluetun_vpn env) of
        Inl x \<Rightarrow> (Inl x, tr_session, log)
      | Inr gluetun_vpn_data \<Rightarrow>
          let gluetun_port = dict_get gluetun_port_data ''port'';
              gluetun_vpn_status = dict_get gluetun_vpn_data ''status''
          in if \<not> (truthy gluetun_port \<and> truthy gluetun_vpn_status)
             then (Inl (HealthcheckErr (ParseError
                     ''E:GLUETUN_PARSE | Missing 'port' or 'status' in Gluetun API response'')),
                   tr_session, log)
             else
     (case run_transmission_rpc (transmission env) tr_session log
             ''session-get'' [(''fields'', [''peer-port''])] of
        (Inl x, s1, log1) \<Rightarrow> (Inl x, s1, log1)
      | (Inr session_data, s1, log1) \<Rightarrow>
     (case run_transmission_rpc (transmission env) s1 log1 ''session-stats'' [] of
        (Inl x, s2, log2) \<Rightarrow> (Inl x, s2, log2)
      | (Inr session_stats, s2, log2) \<Rightarrow>
     (case run_transmission_rpc (transmission env) s2 log2
             ''torrent-get'' [(''fields'', [''id'', ''name'', ''error'', ''errorString''])] of
        (Inl x, s3, log3) \<Rightarrow> (Inl x, s3, log3)
      | (Inr torrents_data, s3, log3) \<Rightarrow>
          (examine (portcheck env) gluetun_port gluetun_vpn_status
             session_data session_stats torrents_data, s3, log3))))))"

text \<open>
  The two \<^verbatim>\<open>except\<close> clauses, lines 257 to 268: the text logged and the text sent
  with the \<^verbatim>\<open>fail\<close> ping.
\<close>

fun handle_exception :: "exn \<Rightarrow> string \<times> string" where
  "handle_exception (HealthcheckErr e) = (full_message e, hc_message e)"
| "handle_exception x = (exn_str x, slice_to (exn_str x) 100)"

datatype ping = PingStart | PingSuccess string | PingFail string

record iteration =
  pings :: "ping list"
  logged :: string
  next_session :: session
  requests_sent :: "request list"

text \<open>
  One pass through the body of \<^verbatim>\<open>while True\<close> (the loop itself never ends and
  the sleep is not modelled). After a failure the next iteration starts with a new
  session.
\<close>

definition main_iteration :: "env \<Rightarrow> session \<Rightarrow> request list \<Rightarrow> iteration" where
  "main_iteration env tr_session log =
     (case main_try env tr_session log of
        (Inr ok, s, l) \<Rightarrow>
          \<lparr>pings = [PingStart, PingSuccess ok], logged = ok, next_session = s,
           requests_sent = l\<rparr>
      | (Inl x, s, l) \<Rightarrow>
          \<lparr>pings = [PingStart, PingFail (snd (handle_exception x))],
           logged = fst (handle_exception x), next_session = None, requests_sent = l\<rparr>)"

section \<open>The bounded message in the words of the specification\<close>

text \<open>
  The specification describes the bounded rendering of a torrent failure as
  \<^verbatim>\<open>"{code} T:{id}({name}): {errorString}"\<close>; over budget, the tail of the error
  string is cut and an ellipsis appended, so that the prefix survives; if the
  prefix leaves at most 4 usable characters of the 100, the torrent name is dropped
  from it and the same cut is tried again; if that fails too, the reduced prefix
  is cut at 100 characters. Of the usable characters, two go to the separator and
  three to the ellipsis.
\<close>

definition torrent_bounded_spec :: "string \<Rightarrow> pydict \<Rightarrow> string" where
  "torrent_bounded_spec code t =
     (let ident = '' T:'' @ py_str (dict_get t ''id'');
          name = ''('' @ py_str (dict_get t ''name'') @ '')'';
          error_string = py_str (dict_get t ''errorString'');
          rendered = code @ ident @ name @ '': '' @ error_string
      in if length rendered \<le> 100 then rendered
         else if 4 < 100 - length (code @ ident @ name)
         then code @ ident @ name @ '': ''
                @ take (100 - length (code @ ident @ name) - 5) error_string @ ''...''
         else if 4 < 100 - length (code @ ident)
         then code @ ident @ '': '' @ take (100 - length (code @ ident) - 5) error_string @ ''...''
         else take 100 (code @ ident))"

section \<open>Example inputs\<close>

text \<open>A daemon and a port check service that cannot be reached.\<close>

definition no_daemon :: "rpc_json daemon" where
  "no_daemon log = Failed ''ConnectionError'' ''Connection refused''"

definition no_portcheck :: "string \<Rightarrow> string reply" where
  "no_portcheck url = Failed ''ConnectTimeout'' ''timed out''"

definition gateway_down :: env where
  "gateway_down =
     \<lparr>gluetun_portforward = Failed ''ConnectionError''
        ''HTTPConnectionPool(host='localhost', port=8000): Max retries exceeded with url: /v1/portforward (Caused by NewConnectionError)'',
      gluetun_vpn = Failed ''ConnectionError'' ''Connection refused'',
      transmission = no_daemon, portcheck = no_portcheck\<rparr>"

text \<open>Answers of the port check service.\<close>

definition newline_service :: "string \<Rightarrow> string reply" where
  "newline_service url =
     Replied \<lparr>status_code = 200, session_id_header = None, error_text = [],
              body = [CHR ''1'', CHR 0x0A]\<rparr>"

definition closed_service :: "string \<Rightarrow> string reply" where
  "closed_service url =
     Replied \<lparr>status_code = 200, session_id_header = None, error_text = [], body = ''0''\<rparr>"

definition banana_service :: "string \<Rightarrow> string reply" where
  "banana_service url =
     Replied \<lparr>status_code = 200, session_id_header = None, error_text = [],
              body = ''banana''\<rparr>"

definition multiple_choices_service :: "string \<Rightarrow> string reply" where
  "multiple_choices_service url =
     Replied \<lparr>status_code = 300, session_id_header = None, error_text = [], body = ''1''\<rparr>"

definition not_modified_service :: "string \<Rightarrow> string reply" where
  "not_modified_service url =
     Replied \<lparr>status_code = 304, session_id_header = None, error_text = [], body = []\<rparr>"

definition bad_gateway_service :: "string \<Rightarrow> string reply" where
  "bad_gateway_service url =
     Replied \<lparr>status_code = 502, session_id_header = None,
              error_text = ''502 Server Error: Bad Gateway for url: '' @ url, body = ''0''\<rparr>"

text \<open>Answers of the gateway and of the daemon.\<close>

definition example_torrent :: pydict where
  "example_torrent =
     [(''id'', PInt 42), (''name'', PStr ''debian.iso''), (''error'', PInt 3),
      (''errorString'', PStr ''No space left on device'')]"

definition gateway_port_zero :: env where
  "gateway_port_zero =
     \<lparr>gluetun_portforward =
        Replied \<lparr>status_code = 200, session_id_header = None, error_text = [],
                 body = [(''port'', PInt 0)]\<rparr>,
      gluetun_vpn =
        Replied \<lparr>status_code = 200, session_id_header = None, error_text = [],
                 body = [(''status'', PStr ''running'')]\<rparr>,
      transmission = no_daemon, portcheck = no_portcheck\<rparr>"

definition gateway_status_empty :: env where
  "gateway_status_empty =
     \<lparr>gluetun_portforward =
        Replied \<lparr>status_code = 200, session_id_header = None, error_text = [],
                 body = [(''port'', PInt 51413)]\<rparr>,
      gluetun_vpn =
        Replied \<lparr>status_code = 200, session_id_header = None, error_text = [],
                 body = [(''status'', PStr [])]\<rparr>,
      transmission = no_daemon, portcheck = no_portcheck\<rparr>"

definition gateway_fields_absent :: env where
  "gateway_fields_absent =
     \<lparr>gluetun_portforward =
        Replied \<lparr>status_code = 200, session_id_header = None, error_text = [], body = []\<rparr>,
      gluetun_vpn =
        Replied \<lparr>status_code = 200, session_id_header = None, error_text = [], body = []\<rparr>,
      transmission = no_daemon, portcheck = no_portcheck\<rparr>"

definition conflict_response :: "rpc_json response" where
  "conflict_response =
     \<lparr>status_code = 409, session_id_header = Some ''fresh-id'',
      error_text = ''409 Client Error: Conflict'', body = RpcJson None\<rparr>"

definition example_session_data :: rpc_json where
  "example_session_data = RpcJson (Some (RpcArgs [(''peer-port'', PInt 60000)] None))"

definition example_session_stats :: rpc_json where
  "example_session_stats =
     RpcJson (Some (RpcArgs [(''activeTorrentCount'', PInt 1), (''downloadSpeed'', PInt 0),
                             (''uploadSpeed'', PInt 0)] None))"

definition expired_daemon :: "rpc_json daemon" where
  "expired_daemon log =
     (if length log = 1 then Replied conflict_response
      else Replied \<lparr>status_code = 200, session_id_header = None, error_text = [],
                    body = example_session_stats\<rparr>)"

definition conflicting_daemon :: "rpc_json daemon" where
  "conflicting_daemon log = Replied conflict_response"

definition example_torrents_data :: rpc_json where
  "example_torrents_data =
     RpcJson (Some (RpcArgs []
       (Some [[(''id'', PInt 7), (''name'', PStr ''ubuntu.iso''), (''error'', PInt 0),
               (''errorString'', PStr [])], example_torrent])))"

definition open_service :: "string \<Rightarrow> string reply" where
  "open_service url =
     Replied \<lparr>status_code = 200, session_id_header = None, error_text = [], body = ''1''\<rparr>"

section \<open>Properties of the message renderer\<close>

lemma slice_tail:
  "4 < a \<Longrightarrow> slice_to ('': '' @ es) (a - 3) = '': '' @ take (nat a - 5) es"
proof -
  assume a: "4 < a"
  then have "nat (a - 3) = Suc (Suc (nat a - 5))" by arith
  with a show ?thesis by (simp add: slice_to_def)
qed

lemma tail_cut:
  "4 < 100 - len pre \<Longrightarrow>
     slice_to ('': '' @ es) (100 - len pre - 3) = '': '' @ take (100 - length pre - 5) es"
proof -
  assume a: "4 < 100 - len pre"
  then have "nat (100 - len pre) - 5 = 100 - length pre - 5" by (simp add: len_def)
  with slice_tail [OF a, of es] show ?thesis by simp
qed

lemma hc_torrent_spec: "hc_torrent p1 t = torrent_bounded_spec p1 t"
proof -
  define es where "es = py_str (dict_get t ''errorString'')"
  define pre1 where
    "pre1 = p1 @ '' T:'' @ py_str (dict_get t ''id'') @ ''('' @ py_str (dict_get t ''name'') @ '')''"
  define pre2 where "pre2 = p1 @ '' T:'' @ py_str (dict_get t ''id'')"
  have L: "hc_torrent p1 t =
      (if len (pre1 @ '': '' @ es) \<le> 100 then pre1 @ '': '' @ es
       else if 4 < 100 - len pre1
       then pre1 @ slice_to ('': '' @ es) (100 - len pre1 - 3) @ ''...''
       else if 4 < 100 - len pre2
       then pre2 @ slice_to ('': '' @ es) (100 - len pre2 - 3) @ ''...''
       else slice_to pre2 100)"
    by (simp add: hc_torrent_def Let_def pre1_def pre2_def es_def)
  have R: "torrent_bounded_spec p1 t =
      (if length (pre1 @ '': '' @ es) \<le> 100 then pre1 @ '': '' @ es
       else if 4 < 100 - length pre1
       then pre1 @ '': '' @ take (100 - length pre1 - 5) es @ ''...''
       else if 4 < 100 - length pre2
       then pre2 @ '': '' @ take (100 - length pre2 - 5) es @ ''...''
       else take 100 pre2)"
    by (simp add: torrent_bounded_spec_def Let_def pre1_def pre2_def es_def)
  have c0: "(len (pre1 @ '': '' @ es) \<le> 100) = (length (pre1 @ '': '' @ es) \<le> 100)"
    unfolding len_def by linarith
  have c1: "(4 < 100 - len pre1) = (4 < 100 - length pre1)"
    by (auto simp: len_def)
  have c2: "(4 < 100 - len pre2) = (4 < 100 - length pre2)"
    by (auto simp: len_def)
  have t3: "slice_to pre2 100 = take 100 pre2"
    by (simp add: slice_to_def)
  show ?thesis
  proof (cases "4 < 100 - len pre1")
    case True
    with tail_cut [OF True, of es] c0 c1 show ?thesis
      unfolding L R by simp
  next
    case False
    note f1 = this
    show ?thesis
    proof (cases "4 < 100 - len pre2")
      case True
      with tail_cut [OF True, of es] f1 c0 c1 c2 show ?thesis
        unfolding L R by simp
    next
      case False
      with f1 c0 c1 c2 t3 show ?thesis
        unfolding L R by simp
    qed
  qed
qed


lemma length_hc_torrent: "length (hc_torrent p1 t) \<le> 100"
  unfolding hc_torrent_def Let_def
  by (auto simp: len_def slice_to_def)

lemma length_capped: "length (if len msg \<le> 100 then msg else slice_to msg 100) \<le> 100"
  by (simp add: len_def slice_to_def)

lemma length_ellipsis: "length (slice_to s 97 @ ''...'') \<le> 100"
  by (simp add: slice_to_def)

lemma hc_message_le_100: "length (hc_message e) \<le> 100"
proof (cases "len (full_message e) \<le> 100")
  case True
  then show ?thesis by (simp add: hc_message_def len_def)
next
  case False
  show ?thesis
  proof (cases "present (portcheck_error e)")
    case (Some pe)
    with False show ?thesis
      using length_capped by (simp add: hc_message_def Let_def)
  next
    case None
    note pc = this
    show ?thesis
    proof (cases "present (mismatch_ports e)")
      case (Some mp)
      with False pc show ?thesis
        using length_capped by (simp add: hc_message_def Let_def)
    next
      case None
      note mm = this
      show ?thesis
      proof (cases "present (torrent e)")
        case (Some t)
        with False pc mm show ?thesis
          by (simp add: hc_message_def length_hc_torrent)
      next
        case None
        with False pc mm show ?thesis
          using length_ellipsis by (simp add: hc_message_def Let_def)
      qed
    qed
  qed
qed

lemma hc_message_torrent_branch:
  "present (portcheck_error e) = None \<Longrightarrow> present (mismatch_ports e) = None \<Longrightarrow>
   present (torrent e) = Some t \<Longrightarrow> 100 < length (full_message e) \<Longrightarrow>
   hc_message e = hc_torrent (message e) t"
  by (simp add: hc_message_def len_def)

lemma hc_message_plain_branch:
  "present (portcheck_error e) = None \<Longrightarrow> present (mismatch_ports e) = None \<Longrightarrow>
   present (torrent e) = None \<Longrightarrow> 100 < length (full_message e) \<Longrightarrow>
   hc_message e = take 97 (full_message e) @ ''...''"
  by (simp add: hc_message_def len_def slice_to_def)

lemma str_int_examples:
  "str_int 42 = ''42''" "str_int 60000 = ''60000''" "str_int 51413 = ''51413''"
  "str_int 0 = ''0''" "str_int 1 = ''1''"
  by (simp_all add: str_int_def str_nat.simps)

text \<open>
  Claim C2. Whatever the failure carries (a port check payload, mismatched ports,
  a torrent with fields of any length, only a message, any context), the
  bounded message \<^verbatim>\<open>hc_message\<close> has at most 100 characters. The same holds for
  the text that \<^verbatim>\<open>main\<close> sends with the \<^verbatim>\<open>fail\<close> ping for any exception.
\<close>

theorem bounded_message_le_100:
  "length (hc_message e) \<le> 100 \<and> length (snd (handle_exception x)) \<le> 100"
proof
  show "length (hc_message e) \<le> 100" by (rule hc_message_le_100)
  show "length (snd (handle_exception x)) \<le> 100"
    by (cases x) (simp_all add: hc_message_le_100 slice_to_def)
qed

text \<open>An instance of C2: a closed port with a context of 200 characters.\<close>

theorem bounded_message_le_100_witness:
  "length (hc_message (PortClosed (replicate 200 CHR ''c''))) \<le> 100
   \<and> length (snd (handle_exception (ValueError (replicate 200 CHR ''v'')))) \<le> 100"
  by (rule bounded_message_le_100)

text \<open>
  Claim C8. If the full message has at most 100 characters, the bounded message
  is the full message; likewise the text sent for any other exception is its
  whole text when that has at most 100 characters.
\<close>

theorem short_message_unchanged:
  "(length (full_message e) \<le> 100 \<longrightarrow> hc_message e = full_message e)
   \<and> (length (exn_str x) \<le> 100 \<longrightarrow> snd (handle_exception x) = exn_str x)"
proof
  show "length (full_message e) \<le> 100 \<longrightarrow> hc_message e = full_message e"
    by (simp add: hc_message_def len_def)
  show "length (exn_str x) \<le> 100 \<longrightarrow> snd (handle_exception x) = exn_str x"
    by (cases x) (simp_all add: hc_message_def len_def slice_to_def)
qed

text \<open>An instance of C8.\<close>

theorem short_message_unchanged_witness:
  "length (full_message (PortClosed ''P:51413(CLOSED) VPN:running'')) \<le> 100
   \<and> hc_message (PortClosed ''P:51413(CLOSED) VPN:running'')
       = ''E:CLOSED | P:51413(CLOSED) VPN:running''
   \<and> length (exn_str (ValueError ''Could not retrieve Transmission Session ID.'')) \<le> 100
   \<and> snd (handle_exception (ValueError ''Could not retrieve Transmission Session ID.''))
       = ''Could not retrieve Transmission Session ID.''"
  using short_message_unchanged [of "PortClosed ''P:51413(CLOSED) VPN:running''"
          "ValueError ''Could not retrieve Transmission Session ID.''"]
  by (simp add: full_message_def PortClosed_def)

text \<open>
  Claim C5. For a failure that carries a torrent, and neither a port check
  payload nor mismatched ports, whose full message exceeds 100 characters, the
  bounded message is the rendering \<open>torrent_bounded_spec\<close> described by the
  specification. For torrent id 42, a name of 90 characters and an error string of
  50 characters, the bounded message is the code, \<^verbatim>\<open>T:42\<close>, the whole error string
  and an ellipsis (the name is dropped), within 100 characters.
\<close>

theorem torrent_truncation:
  "(present (portcheck_error e) = None \<and> present (mismatch_ports e) = None \<and>
    present (torrent e) = Some t \<and> 100 < length (full_message e)
      \<longrightarrow> hc_message e = torrent_bounded_spec (message e) t)
   \<and> (dict_get t' ''id'' = PInt 42 \<and> dict_get t' ''name'' = PStr name \<and> length name = 90 \<and>
       dict_get t' ''errorString'' = PStr es \<and> length es = 50
      \<longrightarrow> hc_message (SystemErrorTorrent t' ctx) = ''E:SYS_ERR T:42: '' @ es @ ''...''
          \<and> length (hc_message (SystemErrorTorrent t' ctx)) \<le> 100)"
proof (intro conjI impI)
  assume "present (portcheck_error e) = None \<and> present (mismatch_ports e) = None \<and>
    present (torrent e) = Some t \<and> 100 < length (full_message e)"
  then show "hc_message e = torrent_bounded_spec (message e) t"
    by (simp add: hc_message_torrent_branch hc_torrent_spec)
next
  assume a: "dict_get t' ''id'' = PInt 42 \<and> dict_get t' ''name'' = PStr name \<and> length name = 90 \<and>
       dict_get t' ''errorString'' = PStr es \<and> length es = 50"
  then have ne: "t' \<noteq> []" by (auto simp: dict_get_def dict_get_default_def)
  let ?e = "SystemErrorTorrent t' ctx"
  from ne have p: "present (portcheck_error ?e) = None" "present (mismatch_ports ?e) = None"
      "present (torrent ?e) = Some t'"
    by (simp_all add: SystemErrorTorrent_def)
  from a p have "100 < length (full_message ?e)"
    by (simp add: full_message_def)
  with p have "hc_message ?e = torrent_bounded_spec (message ?e) t'"
    by (simp add: hc_message_torrent_branch hc_torrent_spec)
  with a show r: "hc_message ?e = ''E:SYS_ERR T:42: '' @ es @ ''...''"
    by (simp add: torrent_bounded_spec_def SystemErrorTorrent_def str_int_examples)
  from a show "length (hc_message ?e) \<le> 100" unfolding r by simp
qed

text \<open>Instances of C5: the example of the specification, and a name of 60 characters.\<close>

theorem torrent_truncation_witness:
  "hc_message (SystemErrorTorrent
       [(''id'', PInt 42), (''name'', PStr (replicate 90 CHR ''n'')),
        (''error'', PInt 3), (''errorString'', PStr (replicate 50 CHR ''e''))] ''ctx'')
     = ''E:SYS_ERR T:42: '' @ replicate 50 CHR ''e'' @ ''...''
   \<and> hc_message (SystemErrorTorrent
       [(''id'', PInt 7), (''name'', PStr (replicate 60 CHR ''n'')),
        (''error'', PInt 3), (''errorString'', PStr (replicate 50 CHR ''e''))] ''ctx'')
     = torrent_bounded_spec ''E:SYS_ERR''
       [(''id'', PInt 7), (''name'', PStr (replicate 60 CHR ''n'')),
        (''error'', PInt 3), (''errorString'', PStr (replicate 50 CHR ''e''))]"
  using torrent_truncation [of
      "SystemErrorTorrent
       [(''id'', PInt 7), (''name'', PStr (replicate 60 CHR ''n'')),
        (''error'', PInt 3), (''errorString'', PStr (replicate 50 CHR ''e''))] ''ctx''"
      "[(''id'', PInt 7), (''name'', PStr (replicate 60 CHR ''n'')),
        (''error'', PInt 3), (''errorString'', PStr (replicate 50 CHR ''e''))]"
      "[(''id'', PInt 42), (''name'', PStr (replicate 90 CHR ''n'')),
        (''error'', PInt 3), (''errorString'', PStr (replicate 50 CHR ''e''))]"
      "replicate 90 CHR ''n''" "replicate 50 CHR ''e''" "''ctx''"]
  by (simp add: SystemErrorTorrent_def full_message_def dict_get_def dict_get_default_def)

text \<open>
  Claim C7, as the code has it. A \<^verbatim>\<open>HealthcheckError\<close> without port check payload,
  mismatched ports or torrent, whose full message exceeds 100 characters, is sent
  as the first 97 characters of the full message followed by an ellipsis. Any
  other exception (an unclassified failure) whose text exceeds 100 characters is
  sent as its first 100 characters with no ellipsis.
\<close>

theorem other_failures_truncation:
  "(present (portcheck_error e) = None \<and> present (mismatch_ports e) = None \<and>
    present (torrent e) = None \<and> 100 < length (full_message e)
      \<longrightarrow> handle_exception (HealthcheckErr e)
            = (full_message e, take 97 (full_message e) @ ''...''))
   \<and> (\<not> is_HealthcheckErr x \<and> 100 < length (exn_str x)
      \<longrightarrow> handle_exception x = (exn_str x, take 100 (exn_str x)))"
proof (intro conjI impI)
  assume "present (portcheck_error e) = None \<and> present (mismatch_ports e) = None \<and>
    present (torrent e) = None \<and> 100 < length (full_message e)"
  then show "handle_exception (HealthcheckErr e)
            = (full_message e, take 97 (full_message e) @ ''...'')"
    by (simp add: hc_message_plain_branch)
next
  assume "\<not> is_HealthcheckErr x \<and> 100 < length (exn_str x)"
  then show "handle_exception x = (exn_str x, take 100 (exn_str x))"
    by (cases x) (simp_all add: slice_to_def)
qed

text \<open>Instances of C7: a closed port with a long context, and a connection error.\<close>

theorem other_failures_truncation_witness:
  "handle_exception (HealthcheckErr (PortClosed (replicate 120 CHR ''c'')))
     = (''E:CLOSED | '' @ replicate 120 CHR ''c'', ''E:CLOSED | '' @ replicate 86 CHR ''c'' @ ''...'')
   \<and> handle_exception (ConnectionError (replicate 120 CHR ''x''))
     = (replicate 120 CHR ''x'', replicate 100 CHR ''x'')"
  using other_failures_truncation [of "PortClosed (replicate 120 CHR ''c'')"
          "ConnectionError (replicate 120 CHR ''x'')"]
  by (simp add: PortClosed_def full_message_def)

text \<open>
  Claim C7 as stated fails for unclassified failures: when the gateway cannot be
  reached, the exception text of 126 characters is sent as its first 100
  characters, which is not the first 97 followed by an ellipsis.
\<close>

theorem unclassified_truncation_counterexample:
  "pings (main_iteration gateway_down None []) =
     [PingStart, PingFail
        ''HTTPConnectionPool(host='localhost', port=8000): Max retries exceeded with url: /v1/portforward (Cau'']
   \<and> logged (main_iteration gateway_down None []) =
        ''HTTPConnectionPool(host='localhost', port=8000): Max retries exceeded with url: /v1/portforward (Caused by NewConnectionError)''
   \<and> ''HTTPConnectionPool(host='localhost', port=8000): Max retries exceeded with url: /v1/portforward (Cau''
       \<noteq> take 97 ''HTTPConnectionPool(host='localhost', port=8000): Max retries exceeded with url: /v1/portforward (Caused by NewConnectionError)'' @ ''...''"
  by (simp add: main_iteration_def main_try_def gateway_down_def gluetun_get_def slice_to_def)

section \<open>Properties of the external port check\<close>

lemma strip_examples:
  "strip ([CHR ''1'', CHR 0x0A]) = ''1''" "strip ''0'' = ''0''" "strip ''1'' = ''1''"
  "strip ''banana'' = ''banana''" "strip [] = []"
  by (simp_all add: strip_def is_space_def)

text \<open>
  Claim C4, as the code has it. For an answer whose status is not an error status,
  the probe is Open exactly when the body with surrounding whitespace stripped is
  \<^verbatim>\<open>"1"\<close>, Closed exactly when it is \<^verbatim>\<open>"0"\<close>, and otherwise Indeterminate with
  the code for an unexpected response and the stripped body as content. A
  transport failure gives Indeterminate with the code for a service that is down
  and the class name of the exception. Closed is returned in no other case, so an
  Indeterminate result is never turned into Closed.
\<close>

theorem probe_classification:
  "(check_external_port service port = (Some True, None) \<longleftrightarrow>
      (\<exists>r. service (portcheck_url port) = Replied r \<and> \<not> raises_for_status r
           \<and> strip (body r) = ''1''))
   \<and> (check_external_port service port = (Some False, None) \<longleftrightarrow>
      (\<exists>r. service (portcheck_url port) = Replied r \<and> \<not> raises_for_status r
           \<and> strip (body r) = ''0''))
   \<and> (service (portcheck_url port) = Replied r \<and> \<not> raises_for_status r
        \<and> strip (body r) \<noteq> ''1'' \<and> strip (body r) \<noteq> ''0''
      \<longrightarrow> check_external_port service port =
            (None, Some [(''error'', PStr ''E:PORTCHECK_UNEXPECTED_RESP''),
                         (''content'', PStr (strip (body r)))]))
   \<and> (service (portcheck_url port) = Failed n m
      \<longrightarrow> check_external_port service port =
            (None, Some [(''error'', PStr ''E:PORTCHECK_DOWN''), (''exception'', PStr n)]))"
  by (cases "service (portcheck_url port)")
     (auto simp: check_external_port_def Let_def)

text \<open>Instances of C4: bodies \<^verbatim>\<open>"1\n"\<close>, \<^verbatim>\<open>"0"\<close>, \<^verbatim>\<open>"banana"\<close>, and a timeout.\<close>

theorem probe_classification_witness:
  "check_external_port newline_service (PInt 51413) = (Some True, None)
   \<and> check_external_port closed_service (PInt 51413) = (Some False, None)
   \<and> check_external_port banana_service (PInt 51413) =
       (None, Some [(''error'', PStr ''E:PORTCHECK_UNEXPECTED_RESP''),
                    (''content'', PStr ''banana'')])
   \<and> check_external_port no_portcheck (PInt 51413) =
       (None, Some [(''error'', PStr ''E:PORTCHECK_DOWN''),
                    (''exception'', PStr ''ConnectTimeout'')])"
proof -
  have 1: "check_external_port newline_service (PInt 51413) = (Some True, None)"
    using probe_classification [of newline_service "PInt 51413"]
    by (simp add: newline_service_def raises_for_status_def strip_examples)
  have 2: "check_external_port closed_service (PInt 51413) = (Some False, None)"
    using probe_classification [of closed_service "PInt 51413"]
    by (simp add: closed_service_def raises_for_status_def strip_examples)
  have 3: "check_external_port banana_service (PInt 51413) =
       (None, Some [(''error'', PStr ''E:PORTCHECK_UNEXPECTED_RESP''),
                    (''content'', PStr ''banana'')])"
    using probe_classification [of banana_service "PInt 51413"
        "\<lparr>status_code = 200, session_id_header = None, error_text = [], body = ''banana''\<rparr>"]
    by (simp add: banana_service_def raises_for_status_def strip_examples)
  have 4: "check_external_port no_portcheck (PInt 51413) =
       (None, Some [(''error'', PStr ''E:PORTCHECK_DOWN''),
                    (''exception'', PStr ''ConnectTimeout'')])"
    using probe_classification [of no_portcheck "PInt 51413" _ "''ConnectTimeout''" "''timed out''"]
    by (simp add: no_portcheck_def)
  from 1 2 3 4 show ?thesis by simp
qed

text \<open>
  Claim C4 as stated fails: a body of \<^verbatim>\<open>"1"\<close> followed by a line feed is not the
  body \<^verbatim>\<open>"1"\<close>, and the probe is Open.
\<close>

theorem probe_body_counterexample:
  "newline_service (portcheck_url (PInt 51413)) =
     Replied \<lparr>status_code = 200, session_id_header = None, error_text = [],
              body = [CHR ''1'', CHR 0x0A]\<rparr>
   \<and> [CHR ''1'', CHR 0x0A] \<noteq> ''1''
   \<and> check_external_port newline_service (PInt 51413) = (Some True, None)"
  by (simp add: check_external_port_def newline_service_def raises_for_status_def strip_examples)

text \<open>
  Claim C10, as the code has it. An answer with a status from 400 to 599, for
  which \<^verbatim>\<open>raise_for_status\<close> raises, makes the probe Indeterminate with the code
  for a service that is down and \<^verbatim>\<open>HTTPError\<close> as detail, whatever the body: it is
  neither an unexpected response nor Closed.
\<close>

theorem http_error_is_service_down:
  "service (portcheck_url port) = Replied r \<and> 400 \<le> status_code r \<and> status_code r < 600
   \<longrightarrow> check_external_port service port =
         (None, Some [(''error'', PStr ''E:PORTCHECK_DOWN''), (''exception'', PStr ''HTTPError'')])"
  by (simp add: check_external_port_def raises_for_status_def)

text \<open>An instance of C10: a 502 answer whose body is \<^verbatim>\<open>"0"\<close>.\<close>

theorem http_error_is_service_down_witness:
  "check_external_port bad_gateway_service (PInt 51413) =
     (None, Some [(''error'', PStr ''E:PORTCHECK_DOWN''), (''exception'', PStr ''HTTPError'')])"
  using http_error_is_service_down [of bad_gateway_service "PInt 51413"
      "\<lparr>status_code = 502, session_id_header = None,
        error_text = ''502 Server Error: Bad Gateway for url: '' @ portcheck_url (PInt 51413),
        body = ''0''\<rparr>"]
  by (simp add: bad_gateway_service_def)

text \<open>
  Claim C10 as stated fails for statuses outside 200 to 299 that are no error
  statuses: a 300 answer with body \<^verbatim>\<open>"1"\<close> makes the probe Open, and a 304 answer
  with an empty body is reported as an unexpected response.
\<close>

theorem non_2xx_counterexample:
  "check_external_port multiple_choices_service (PInt 51413) = (Some True, None)
   \<and> check_external_port not_modified_service (PInt 51413) =
       (None, Some [(''error'', PStr ''E:PORTCHECK_UNEXPECTED_RESP''), (''content'', PStr [])])"
  by (simp add: check_external_port_def multiple_choices_service_def not_modified_service_def
        raises_for_status_def strip_examples)

section \<open>Properties of the checks\<close>

lemma check_external_port_error_dict:
  assumes "snd (check_external_port service port) = Some pe"
  shows "pe \<noteq> []" and "\<exists>code. map_of pe ''error'' = Some (PStr code)"
    and "fst (check_external_port service port) = None"
proof -
  show "pe \<noteq> []"
    using assms
    by (cases "service (portcheck_url port)")
       (auto simp: check_external_port_def Let_def split: if_splits)
  show "\<exists>code. map_of pe ''error'' = Some (PStr code)"
    using assms
    by (cases "service (portcheck_url port)")
       (auto simp: check_external_port_def Let_def split: if_splits)
  show "fst (check_external_port service port) = None"
    using assms
    by (cases "service (portcheck_url port)")
       (auto simp: check_external_port_def Let_def split: if_splits)
qed

lemma checks_portcheck_first:
  assumes "snd (check_external_port service tp) = Some pe"
  shows "perform_checks g tp sys (check_external_port service tp) ctx =
           Inl (HealthcheckErr (PortCheckFailure (py_str (dict_get pe ''error'')) pe ctx))"
proof -
  from check_external_port_error_dict [OF assms]
  obtain code where "pe \<noteq> []" and "map_of pe ''error'' = Some (PStr code)" by blast
  with assms show ?thesis
    by (simp add: perform_checks_def dict_get_def dict_get_default_def)
qed

lemma checks_mismatch_second:
  assumes "snd probe = None" and "\<not> py_eq g tp"
  shows "perform_checks g tp sys probe ctx = Inl (HealthcheckErr (PortMismatch g tp ctx))"
  using assms by (simp add: perform_checks_def)

lemma checks_closed_third:
  assumes "py_eq g tp"
  shows "perform_checks g tp sys (Some False, None) ctx = Inl (HealthcheckErr (PortClosed ctx))"
  using assms by (simp add: perform_checks_def)

lemma checks_torrent_fourth:
  assumes "py_eq g tp"
  shows "perform_checks g tp (t # rest) (Some True, None) ctx =
           Inl (HealthcheckErr (SystemErrorTorrent t ctx))"
  using assms by (simp add: perform_checks_def)

lemma checks_success_last:
  assumes "py_eq g tp"
  shows "perform_checks g tp [] (Some True, None) ctx = Inr (''OK | '' @ ctx)"
  using assms by (simp add: perform_checks_def)

lemma checks_never_torrent:
  assumes "\<not> py_eq g tp"
  shows "perform_checks g tp sys (check_external_port service tp) ctx \<noteq>
           Inl (HealthcheckErr (SystemErrorTorrent t' ctx'))"
proof (cases "snd (check_external_port service tp)")
  case None
  from checks_mismatch_second [OF None assms] show ?thesis
    by (simp add: PortMismatch_def SystemErrorTorrent_def)
next
  case (Some pe)
  from checks_portcheck_first [OF Some] show ?thesis
    by (simp add: PortCheckFailure_def SystemErrorTorrent_def)
qed

text \<open>
  Claim C1, as the code has it. With the result of the port check as probe, the
  checks are made in this order and stop at the first that applies: an
  Indeterminate probe gives the port check failure, whatever else holds; otherwise
  differing ports give the mismatch; otherwise a Closed probe gives the closed
  port; otherwise a torrent in system error gives that failure with the first
  such torrent; otherwise the cycle succeeds. With differing ports and a torrent
  in system error the failure is never the torrent's: it is the mismatch, unless
  the probe is Indeterminate, when it is the port check failure.
\<close>

theorem checks_priority:
  "probe = check_external_port service transmission_port \<longrightarrow>
     (snd probe = Some pe \<longrightarrow>
        perform_checks gluetun_port transmission_port system_error_torrents probe ctx =
          Inl (HealthcheckErr (PortCheckFailure (py_str (dict_get pe ''error'')) pe ctx)))
   \<and> (snd probe = None \<and> \<not> py_eq gluetun_port transmission_port \<longrightarrow>
        perform_checks gluetun_port transmission_port system_error_torrents probe ctx =
          Inl (HealthcheckErr (PortMismatch gluetun_port transmission_port ctx)))
   \<and> (probe = (Some False, None) \<and> py_eq gluetun_port transmission_port \<longrightarrow>
        perform_checks gluetun_port transmission_port system_error_torrents probe ctx =
          Inl (HealthcheckErr (PortClosed ctx)))
   \<and> (probe = (Some True, None) \<and> py_eq gluetun_port transmission_port
        \<and> system_error_torrents = t # rest \<longrightarrow>
        perform_checks gluetun_port transmission_port system_error_torrents probe ctx =
          Inl (HealthcheckErr (SystemErrorTorrent t ctx)))
   \<and> (probe = (Some True, None) \<and> py_eq gluetun_port transmission_port
        \<and> system_error_torrents = [] \<longrightarrow>
        perform_checks gluetun_port transmission_port system_error_torrents probe ctx =
          Inr (''OK | '' @ ctx))
   \<and> (\<not> py_eq gluetun_port transmission_port \<and> system_error_torrents \<noteq> [] \<longrightarrow>
        perform_checks gluetun_port transmission_port system_error_torrents probe ctx \<noteq>
          Inl (HealthcheckErr (SystemErrorTorrent t' ctx')))"
proof (intro impI conjI)
  assume "probe = check_external_port service transmission_port" and "snd probe = Some pe"
  then show "perform_checks gluetun_port transmission_port system_error_torrents probe ctx =
          Inl (HealthcheckErr (PortCheckFailure (py_str (dict_get pe ''error'')) pe ctx))"
    using checks_portcheck_first by blast
next
  assume "snd probe = None \<and> \<not> py_eq gluetun_port transmission_port"
  then show "perform_checks gluetun_port transmission_port system_error_torrents probe ctx =
          Inl (HealthcheckErr (PortMismatch gluetun_port transmission_port ctx))"
    using checks_mismatch_second by blast
next
  assume "probe = (Some False, None) \<and> py_eq gluetun_port transmission_port"
  then show "perform_checks gluetun_port transmission_port system_error_torrents probe ctx =
          Inl (HealthcheckErr (PortClosed ctx))"
    using checks_closed_third by blast
next
  assume "probe = (Some True, None) \<and> py_eq gluetun_port transmission_port
        \<and> system_error_torrents = t # rest"
  then show "perform_checks gluetun_port transmission_port system_error_torrents probe ctx =
          Inl (HealthcheckErr (SystemErrorTorrent t ctx))"
    using checks_torrent_fourth by blast
next
  assume "probe = (Some True, None) \<and> py_eq gluetun_port transmission_port
        \<and> system_error_torrents = []"
  then show "perform_checks gluetun_port transmission_port system_error_torrents probe ctx =
          Inr (''OK | '' @ ctx)"
    using checks_success_last by blast
next
  assume "probe = check_external_port service transmission_port"
    and "\<not> py_eq gluetun_port transmission_port \<and> system_error_torrents \<noteq> []"
  then show "perform_checks gluetun_port transmission_port system_error_torrents probe ctx \<noteq>
          Inl (HealthcheckErr (SystemErrorTorrent t' ctx'))"
    using checks_never_torrent by blast
qed


text \<open>Instances of C1, one for each of the five outcomes.\<close>

theorem checks_priority_witness:
  "perform_checks (PInt 51413) (PInt 60000) [example_torrent]
      (check_external_port no_portcheck (PInt 60000)) ''ctx'' =
     Inl (HealthcheckErr (PortCheckFailure ''E:PORTCHECK_DOWN''
       [(''error'', PStr ''E:PORTCHECK_DOWN''), (''exception'', PStr ''ConnectTimeout'')] ''ctx''))
   \<and> perform_checks (PInt 51413) (PInt 60000) [example_torrent]
      (check_external_port closed_service (PInt 60000)) ''ctx'' =
     Inl (HealthcheckErr (PortMismatch (PInt 51413) (PInt 60000) ''ctx''))
   \<and> perform_checks (PInt 51413) (PInt 51413) [example_torrent]
      (check_external_port closed_service (PInt 51413)) ''ctx'' =
     Inl (HealthcheckErr (PortClosed ''ctx''))
   \<and> perform_checks (PInt 51413) (PInt 51413) [example_torrent]
      (check_external_port open_service (PInt 51413)) ''ctx'' =
     Inl (HealthcheckErr (SystemErrorTorrent example_torrent ''ctx''))
   \<and> perform_checks (PInt 51413) (PInt 51413) []
      (check_external_port open_service (PInt 51413)) ''ctx'' = Inr ''OK | ctx''"
proof -
  have down: "check_external_port no_portcheck (PInt 60000) =
      (None, Some [(''error'', PStr ''E:PORTCHECK_DOWN''), (''exception'', PStr ''ConnectTimeout'')])"
    by (simp add: check_external_port_def no_portcheck_def)
  have closed: "check_external_port closed_service p = (Some False, None)" for p
    by (simp add: check_external_port_def closed_service_def raises_for_status_def strip_def
          is_space_def)
  have opened: "check_external_port open_service p = (Some True, None)" for p
    by (simp add: check_external_port_def open_service_def raises_for_status_def strip_def
          is_space_def)
  have 1: "perform_checks (PInt 51413) (PInt 60000) [example_torrent]
      (check_external_port no_portcheck (PInt 60000)) ''ctx'' =
     Inl (HealthcheckErr (PortCheckFailure ''E:PORTCHECK_DOWN''
       [(''error'', PStr ''E:PORTCHECK_DOWN''), (''exception'', PStr ''ConnectTimeout'')] ''ctx''))"
    using checks_priority [of "check_external_port no_portcheck (PInt 60000)" no_portcheck
        "PInt 60000"
        "[(''error'', PStr ''E:PORTCHECK_DOWN''), (''exception'', PStr ''ConnectTimeout'')]"
        "PInt 51413" "[example_torrent]" "''ctx''"] down
    by (simp add: dict_get_def dict_get_default_def)
  have 2: "perform_checks (PInt 51413) (PInt 60000) [example_torrent]
      (check_external_port closed_service (PInt 60000)) ''ctx'' =
     Inl (HealthcheckErr (PortMismatch (PInt 51413) (PInt 60000) ''ctx''))"
    using checks_priority [of "check_external_port closed_service (PInt 60000)" closed_service
        "PInt 60000" _ "PInt 51413" "[example_torrent]" "''ctx''"] closed
    by simp
  have 3: "perform_checks (PInt 51413) (PInt 51413) [example_torrent]
      (check_external_port closed_service (PInt 51413)) ''ctx'' =
     Inl (HealthcheckErr (PortClosed ''ctx''))"
    using checks_priority [of "check_external_port closed_service (PInt 51413)" closed_service
        "PInt 51413" _ "PInt 51413" "[example_torrent]" "''ctx''"] closed
    by simp
  have 4: "perform_checks (PInt 51413) (PInt 51413) [example_torrent]
      (check_external_port open_service (PInt 51413)) ''ctx'' =
     Inl (HealthcheckErr (SystemErrorTorrent example_torrent ''ctx''))"
    using checks_priority [of "check_external_port open_service (PInt 51413)" open_service
        "PInt 51413" _ "PInt 51413" "[example_torrent]" "''ctx''" example_torrent "[]"] opened
    by simp
  have 5: "perform_checks (PInt 51413) (PInt 51413) []
      (check_external_port open_service (PInt 51413)) ''ctx'' = Inr ''OK | ctx''"
    using checks_priority [of "check_external_port open_service (PInt 51413)" open_service
        "PInt 51413" _ "PInt 51413" "[]" "''ctx''"] opened
    by simp
  from 1 2 3 4 5 show ?thesis by simp
qed

text \<open>
  Claim C1 as stated fails where it says that every state with differing ports
  and a torrent in system error is diagnosed as a mismatch: with gateway port
  51413, peer port 60000, a torrent with error code 3 and a port check service
  that times out, the failure raised is the port check failure.
\<close>

theorem mismatch_with_torrent_counterexample:
  "\<not> py_eq (PInt 51413) (dict_get (entries (get_arguments example_session_data)) ''peer-port'')
   \<and> system_error_torrents_of example_torrents_data = [example_torrent]
   \<and> examine no_portcheck (PInt 51413) (PStr ''running'')
        example_session_data example_session_stats example_torrents_data =
      Inl (HealthcheckErr (PortCheckFailure ''E:PORTCHECK_DOWN''
        [(''error'', PStr ''E:PORTCHECK_DOWN''), (''exception'', PStr ''ConnectTimeout'')]
        ''P:60000(CLOSED) VPN:running | DL/UL:0/0 | Act:1''))
   \<and> PortCheckFailure ''E:PORTCHECK_DOWN''
        [(''error'', PStr ''E:PORTCHECK_DOWN''), (''exception'', PStr ''ConnectTimeout'')]
        ''P:60000(CLOSED) VPN:running | DL/UL:0/0 | Act:1''
      \<noteq> PortMismatch (PInt 51413) (PInt 60000) ''P:60000(CLOSED) VPN:running | DL/UL:0/0 | Act:1''"
proof (intro conjI)
  show "\<not> py_eq (PInt 51413)
      (dict_get (entries (get_arguments example_session_data)) ''peer-port'')"
    by (simp add: example_session_data_def get_arguments_def dict_get_def dict_get_default_def)
  show "system_error_torrents_of example_torrents_data = [example_torrent]"
    by (simp add: system_error_torrents_of_def example_torrents_data_def example_torrent_def
          get_arguments_def get_torrents_def dict_get_def dict_get_default_def)
  then show "examine no_portcheck (PInt 51413) (PStr ''running'')
        example_session_data example_session_stats example_torrents_data =
      Inl (HealthcheckErr (PortCheckFailure ''E:PORTCHECK_DOWN''
        [(''error'', PStr ''E:PORTCHECK_DOWN''), (''exception'', PStr ''ConnectTimeout'')]
        ''P:60000(CLOSED) VPN:running | DL/UL:0/0 | Act:1''))"
    by (simp add: examine_def example_session_data_def example_session_stats_def
          get_arguments_def dict_get_def dict_get_default_def check_external_port_def
          no_portcheck_def perform_checks_def diagnostic_context_of_def str_int_examples)
  show "PortCheckFailure ''E:PORTCHECK_DOWN''
        [(''error'', PStr ''E:PORTCHECK_DOWN''), (''exception'', PStr ''ConnectTimeout'')]
        ''P:60000(CLOSED) VPN:running | DL/UL:0/0 | Act:1''
      \<noteq> PortMismatch (PInt 51413) (PInt 60000) ''P:60000(CLOSED) VPN:running | DL/UL:0/0 | Act:1''"
    by (simp add: PortCheckFailure_def PortMismatch_def)
qed

text \<open>
  Claim C6. When the port check is Indeterminate, the exception raised carries the
  error code of the probe as message and the error dict of the probe as port
  check payload: it is the port check failure, not the closed port. Its context
  is the summary in which the port is shown as \<^verbatim>\<open>CLOSED\<close>, the very summary a
  Closed result gives, and the full message that is logged ends with it.
\<close>

theorem indeterminate_shows_closed:
  "(dict_get (entries (get_arguments session_data)) ''peer-port'' = tp \<and> tp \<noteq> PNone
    \<and> check_external_port service tp = (None, Some pe)
    \<and> ctx = ''P:'' @ py_str tp @ ''(CLOSED) VPN:'' @ py_str vpn @ '' | DL/UL:''
              @ py_str (dict_get_default (entries (get_arguments session_stats))
                          ''downloadSpeed'' (PStr ''N/A''))
              @ ''/''
              @ py_str (dict_get_default (entries (get_arguments session_stats))
                          ''uploadSpeed'' (PStr ''N/A''))
              @ '' | Act:''
              @ py_str (dict_get_default (entries (get_arguments session_stats))
                          ''activeTorrentCount'' (PStr ''N/A''))
    \<and> e = \<lparr>message = py_str (dict_get pe ''error''), diag_context = Some ctx,
            torrent = None, mismatch_ports = None, portcheck_error = Some pe\<rparr>
    \<longrightarrow> examine service gluetun_port vpn session_data session_stats torrents_data =
          Inl (HealthcheckErr e)
        \<and> diag_context e = Some ctx
        \<and> present (portcheck_error e) = Some pe
        \<and> full_message e =
            py_str (dict_get pe ''error'') @ ''('' @ py_str (portcheck_detail pe) @ '') | '' @ ctx
        \<and> fst (handle_exception (HealthcheckErr e)) =
            py_str (dict_get pe ''error'') @ ''('' @ py_str (portcheck_detail pe) @ '') | '' @ ctx
        \<and> e \<noteq> PortClosed ctx
        \<and> ctx = diagnostic_context_of tp (Some False) vpn
            (dict_get_default (entries (get_arguments session_stats))
               ''downloadSpeed'' (PStr ''N/A''))
            (dict_get_default (entries (get_arguments session_stats))
               ''uploadSpeed'' (PStr ''N/A''))
            (dict_get_default (entries (get_arguments session_stats))
               ''activeTorrentCount'' (PStr ''N/A'')))"
proof (intro impI)
  assume a: "dict_get (entries (get_arguments session_data)) ''peer-port'' = tp \<and> tp \<noteq> PNone
    \<and> check_external_port service tp = (None, Some pe)
    \<and> ctx = ''P:'' @ py_str tp @ ''(CLOSED) VPN:'' @ py_str vpn @ '' | DL/UL:''
              @ py_str (dict_get_default (entries (get_arguments session_stats))
                          ''downloadSpeed'' (PStr ''N/A''))
              @ ''/''
              @ py_str (dict_get_default (entries (get_arguments session_stats))
                          ''uploadSpeed'' (PStr ''N/A''))
              @ '' | Act:''
              @ py_str (dict_get_default (entries (get_arguments session_stats))
                          ''activeTorrentCount'' (PStr ''N/A''))
    \<and> e = \<lparr>message = py_str (dict_get pe ''error''), diag_context = Some ctx,
            torrent = None, mismatch_ports = None, portcheck_error = Some pe\<rparr>"
  then have s: "snd (check_external_port service tp) = Some pe" by simp
  from check_external_port_error_dict(1) [OF s] have ne: "pe \<noteq> []" .
  from a have e: "e = \<lparr>message = py_str (dict_get pe ''error''), diag_context = Some ctx,
            torrent = None, mismatch_ports = None, portcheck_error = Some pe\<rparr>"
    by blast
  from a have port: "dict_get (entries (get_arguments session_data)) ''peer-port'' = tp"
    "tp \<noteq> PNone" "check_external_port service tp = (None, Some pe)"
    by blast+
  from a have ctx: "ctx = ''P:'' @ py_str tp @ ''(CLOSED) VPN:'' @ py_str vpn @ '' | DL/UL:''
              @ py_str (dict_get_default (entries (get_arguments session_stats))
                          ''downloadSpeed'' (PStr ''N/A''))
              @ ''/''
              @ py_str (dict_get_default (entries (get_arguments session_stats))
                          ''uploadSpeed'' (PStr ''N/A''))
              @ '' | Act:''
              @ py_str (dict_get_default (entries (get_arguments session_stats))
                          ''activeTorrentCount'' (PStr ''N/A''))"
    by blast
  have 1: "examine service gluetun_port vpn session_data session_stats torrents_data =
          Inl (HealthcheckErr e)"
    using port checks_portcheck_first [OF s]
    by (simp add: examine_def Let_def diagnostic_context_of_def PortCheckFailure_def e ctx)
  have 2: "diag_context e = Some ctx" by (simp add: e)
  have 3: "present (portcheck_error e) = Some pe" using ne by (simp add: e)
  have 4: "full_message e =
      py_str (dict_get pe ''error'') @ ''('' @ py_str (portcheck_detail pe) @ '') | '' @ ctx"
    using ne by (simp add: full_message_def e)
  have 5: "fst (handle_exception (HealthcheckErr e)) =
      py_str (dict_get pe ''error'') @ ''('' @ py_str (portcheck_detail pe) @ '') | '' @ ctx"
    using 4 by simp
  have 6: "e \<noteq> PortClosed ctx"
    by (simp add: e PortClosed_def)
  have 7: "ctx = diagnostic_context_of tp (Some False) vpn
            (dict_get_default (entries (get_arguments session_stats))
               ''downloadSpeed'' (PStr ''N/A''))
            (dict_get_default (entries (get_arguments session_stats))
               ''uploadSpeed'' (PStr ''N/A''))
            (dict_get_default (entries (get_arguments session_stats))
               ''activeTorrentCount'' (PStr ''N/A''))"
    by (simp add: ctx diagnostic_context_of_def)
  from 1 2 3 4 5 6 7
  show "examine service gluetun_port vpn session_data session_stats torrents_data =
          Inl (HealthcheckErr e)
        \<and> diag_context e = Some ctx
        \<and> present (portcheck_error e) = Some pe
        \<and> full_message e =
            py_str (dict_get pe ''error'') @ ''('' @ py_str (portcheck_detail pe) @ '') | '' @ ctx
        \<and> fst (handle_exception (HealthcheckErr e)) =
            py_str (dict_get pe ''error'') @ ''('' @ py_str (portcheck_detail pe) @ '') | '' @ ctx
        \<and> e \<noteq> PortClosed ctx
        \<and> ctx = diagnostic_context_of tp (Some False) vpn
            (dict_get_default (entries (get_arguments session_stats))
               ''downloadSpeed'' (PStr ''N/A''))
            (dict_get_default (entries (get_arguments session_stats))
               ''uploadSpeed'' (PStr ''N/A''))
            (dict_get_default (entries (get_arguments session_stats))
               ''activeTorrentCount'' (PStr ''N/A''))"
    by blast
qed

text \<open>
  An instance of C6: the service answers \<^verbatim>\<open>"banana"\<close>. The exception raised has
  the context with \<^verbatim>\<open>CLOSED\<close> in it, and so has the message logged.
\<close>

theorem indeterminate_shows_closed_witness:
  "examine banana_service (PInt 60000) (PStr ''running'')
        example_session_data example_session_stats example_torrents_data =
      Inl (HealthcheckErr
        \<lparr>message = ''E:PORTCHECK_UNEXPECTED_RESP'',
         diag_context = Some ''P:60000(CLOSED) VPN:running | DL/UL:0/0 | Act:1'',
         torrent = None, mismatch_ports = None,
         portcheck_error = Some [(''error'', PStr ''E:PORTCHECK_UNEXPECTED_RESP''),
                                 (''content'', PStr ''banana'')]\<rparr>)
   \<and> full_message
        \<lparr>message = ''E:PORTCHECK_UNEXPECTED_RESP'',
         diag_context = Some ''P:60000(CLOSED) VPN:running | DL/UL:0/0 | Act:1'',
         torrent = None, mismatch_ports = None,
         portcheck_error = Some [(''error'', PStr ''E:PORTCHECK_UNEXPECTED_RESP''),
                                 (''content'', PStr ''banana'')]\<rparr> =
      ''E:PORTCHECK_UNEXPECTED_RESP(banana) | P:60000(CLOSED) VPN:running | DL/UL:0/0 | Act:1''"
proof -
  have p: "check_external_port banana_service (PInt 60000) =
      (None, Some [(''error'', PStr ''E:PORTCHECK_UNEXPECTED_RESP''),
                   (''content'', PStr ''banana'')])"
    by (simp add: check_external_port_def banana_service_def raises_for_status_def strip_def
          is_space_def)
  have q: "dict_get (entries (get_arguments example_session_data)) ''peer-port'' = PInt 60000"
    by (simp add: example_session_data_def get_arguments_def dict_get_def dict_get_default_def)
  have r: "py_str (dict_get [(''error'', PStr ''E:PORTCHECK_UNEXPECTED_RESP''),
                               (''content'', PStr ''banana'')] ''error'')
        = ''E:PORTCHECK_UNEXPECTED_RESP''"
    "py_str (portcheck_detail [(''error'', PStr ''E:PORTCHECK_UNEXPECTED_RESP''),
                               (''content'', PStr ''banana'')]) = ''banana''"
    by (simp_all add: dict_get_def dict_get_default_def portcheck_detail_def py_or_def)
  have h: "dict_get (entries (get_arguments example_session_data)) ''peer-port'' = PInt 60000
    \<and> PInt 60000 \<noteq> PNone
    \<and> check_external_port banana_service (PInt 60000) =
        (None, Some [(''error'', PStr ''E:PORTCHECK_UNEXPECTED_RESP''),
                     (''content'', PStr ''banana'')])
    \<and> ''P:60000(CLOSED) VPN:running | DL/UL:0/0 | Act:1'' =
        ''P:'' @ py_str (PInt 60000) @ ''(CLOSED) VPN:'' @ py_str (PStr ''running'')
          @ '' | DL/UL:''
          @ py_str (dict_get_default (entries (get_arguments example_session_stats))
                      ''downloadSpeed'' (PStr ''N/A''))
          @ ''/''
          @ py_str (dict_get_default (entries (get_arguments example_session_stats))
                      ''uploadSpeed'' (PStr ''N/A''))
          @ '' | Act:''
          @ py_str (dict_get_default (entries (get_arguments example_session_stats))
                      ''activeTorrentCount'' (PStr ''N/A''))
    \<and> \<lparr>message = ''E:PORTCHECK_UNEXPECTED_RESP'',
         diag_context = Some ''P:60000(CLOSED) VPN:running | DL/UL:0/0 | Act:1'',
         torrent = None, mismatch_ports = None,
         portcheck_error = Some [(''error'', PStr ''E:PORTCHECK_UNEXPECTED_RESP''),
                                 (''content'', PStr ''banana'')]\<rparr> =
       \<lparr>message = py_str (dict_get [(''error'', PStr ''E:PORTCHECK_UNEXPECTED_RESP''),
                                       (''content'', PStr ''banana'')] ''error''),
         diag_context = Some ''P:60000(CLOSED) VPN:running | DL/UL:0/0 | Act:1'',
         torrent = None, mismatch_ports = None,
         portcheck_error = Some [(''error'', PStr ''E:PORTCHECK_UNEXPECTED_RESP''),
                                 (''content'', PStr ''banana'')]\<rparr>"
    using p q
    by (simp add: r example_session_stats_def get_arguments_def dict_get_default_def
          str_int_examples)
  note concl = indeterminate_shows_closed [of example_session_data "PInt 60000" banana_service
        "[(''error'', PStr ''E:PORTCHECK_UNEXPECTED_RESP''), (''content'', PStr ''banana'')]"
        "''P:60000(CLOSED) VPN:running | DL/UL:0/0 | Act:1''" "PStr ''running''"
        example_session_stats
        "\<lparr>message = ''E:PORTCHECK_UNEXPECTED_RESP'',
         diag_context = Some ''P:60000(CLOSED) VPN:running | DL/UL:0/0 | Act:1'',
         torrent = None, mismatch_ports = None,
         portcheck_error = Some [(''error'', PStr ''E:PORTCHECK_UNEXPECTED_RESP''),
                                 (''content'', PStr ''banana'')]\<rparr>"
        "PInt 60000" example_torrents_data, THEN mp, OF h]
  from concl have 1: "examine banana_service (PInt 60000) (PStr ''running'')
        example_session_data example_session_stats example_torrents_data =
      Inl (HealthcheckErr
        \<lparr>message = ''E:PORTCHECK_UNEXPECTED_RESP'',
         diag_context = Some ''P:60000(CLOSED) VPN:running | DL/UL:0/0 | Act:1'',
         torrent = None, mismatch_ports = None,
         portcheck_error = Some [(''error'', PStr ''E:PORTCHECK_UNEXPECTED_RESP''),
                                 (''content'', PStr ''banana'')]\<rparr>)"
    by blast
  from concl have "full_message
        \<lparr>message = ''E:PORTCHECK_UNEXPECTED_RESP'',
         diag_context = Some ''P:60000(CLOSED) VPN:running | DL/UL:0/0 | Act:1'',
         torrent = None, mismatch_ports = None,
         portcheck_error = Some [(''error'', PStr ''E:PORTCHECK_UNEXPECTED_RESP''),
                                 (''content'', PStr ''banana'')]\<rparr> =
      py_str (dict_get [(''error'', PStr ''E:PORTCHECK_UNEXPECTED_RESP''),
                        (''content'', PStr ''banana'')] ''error'')
        @ ''('' @ py_str (portcheck_detail [(''error'', PStr ''E:PORTCHECK_UNEXPECTED_RESP''),
                                            (''content'', PStr ''banana'')])
        @ '') | '' @ ''P:60000(CLOSED) VPN:running | DL/UL:0/0 | Act:1''"
    by blast
  then have 2: "full_message
        \<lparr>message = ''E:PORTCHECK_UNEXPECTED_RESP'',
         diag_context = Some ''P:60000(CLOSED) VPN:running | DL/UL:0/0 | Act:1'',
         torrent = None, mismatch_ports = None,
         portcheck_error = Some [(''error'', PStr ''E:PORTCHECK_UNEXPECTED_RESP''),
                                 (''content'', PStr ''banana'')]\<rparr> =
      ''E:PORTCHECK_UNEXPECTED_RESP(banana) | P:60000(CLOSED) VPN:running | DL/UL:0/0 | Act:1''"
    by (simp add: r)
  from 1 2 show ?thesis by blast
qed

text \<open>
  Claim C9. When both gateway answers arrive and the port or the status is falsy
  (absent, \<^verbatim>\<open>None\<close>, 0, empty), the iteration fails with the gateway parse failure.
  No request has been sent to the daemon: the list of requests is unchanged. So a
  forwarded port of 0 never reaches the checks.
\<close>

theorem gluetun_falsy_fields:
  "gluetun_portforward env = Replied rp \<and> \<not> raises_for_status rp
   \<and> gluetun_vpn env = Replied rv \<and> \<not> raises_for_status rv
   \<and> \<not> (truthy (dict_get (body rp) ''port'') \<and> truthy (dict_get (body rv) ''status''))
   \<longrightarrow> main_try env tr_session log =
         (Inl (HealthcheckErr (ParseError
            ''E:GLUETUN_PARSE | Missing 'port' or 'status' in Gluetun API response'')),
          tr_session, log)
     \<and> main_iteration env tr_session log =
         \<lparr>pings = [PingStart, PingFail
            ''E:GLUETUN_PARSE | Missing 'port' or 'status' in Gluetun API response''],
          logged = ''E:GLUETUN_PARSE | Missing 'port' or 'status' in Gluetun API response'',
          next_session = None, requests_sent = log\<rparr>"
proof (intro impI)
  assume a: "gluetun_portforward env = Replied rp \<and> \<not> raises_for_status rp
   \<and> gluetun_vpn env = Replied rv \<and> \<not> raises_for_status rv
   \<and> \<not> (truthy (dict_get (body rp) ''port'') \<and> truthy (dict_get (body rv) ''status''))"
  then have t: "main_try env tr_session log =
         (Inl (HealthcheckErr (ParseError
            ''E:GLUETUN_PARSE | Missing 'port' or 'status' in Gluetun API response'')),
          tr_session, log)"
    by (simp add: main_try_def gluetun_get_def Let_def)
  have m: "handle_exception (HealthcheckErr (ParseError
            ''E:GLUETUN_PARSE | Missing 'port' or 'status' in Gluetun API response'')) =
       (''E:GLUETUN_PARSE | Missing 'port' or 'status' in Gluetun API response'',
        ''E:GLUETUN_PARSE | Missing 'port' or 'status' in Gluetun API response'')"
    by (simp add: ParseError_def full_message_def hc_message_def len_def)
  from t m show "main_try env tr_session log =
         (Inl (HealthcheckErr (ParseError
            ''E:GLUETUN_PARSE | Missing 'port' or 'status' in Gluetun API response'')),
          tr_session, log)
     \<and> main_iteration env tr_session log =
         \<lparr>pings = [PingStart, PingFail
            ''E:GLUETUN_PARSE | Missing 'port' or 'status' in Gluetun API response''],
          logged = ''E:GLUETUN_PARSE | Missing 'port' or 'status' in Gluetun API response'',
          next_session = None, requests_sent = log\<rparr>"
    by (simp add: main_iteration_def)
qed


text \<open>
  Instances of C9: a port of 0, an empty status, and both fields absent all end
  the same way.
\<close>

theorem gluetun_falsy_fields_witness:
  "main_iteration gateway_port_zero (Some ''sid'') [] =
     \<lparr>pings = [PingStart, PingFail
        ''E:GLUETUN_PARSE | Missing 'port' or 'status' in Gluetun API response''],
      logged = ''E:GLUETUN_PARSE | Missing 'port' or 'status' in Gluetun API response'',
      next_session = None, requests_sent = []\<rparr>
   \<and> main_iteration gateway_status_empty (Some ''sid'') [] =
       main_iteration gateway_fields_absent (Some ''sid'') []
   \<and> main_iteration gateway_port_zero (Some ''sid'') [] =
       main_iteration gateway_fields_absent (Some ''sid'') []"
proof -
  let ?ok = "\<lambda>b. \<lparr>status_code = 200, session_id_header = None, error_text = [],
                    body = b :: pydict\<rparr>"
  have z: "main_iteration gateway_port_zero (Some ''sid'') [] =
     \<lparr>pings = [PingStart, PingFail
        ''E:GLUETUN_PARSE | Missing 'port' or 'status' in Gluetun API response''],
      logged = ''E:GLUETUN_PARSE | Missing 'port' or 'status' in Gluetun API response'',
      next_session = None, requests_sent = []\<rparr>"
    using gluetun_falsy_fields [of gateway_port_zero "?ok [(''port'', PInt 0)]"
        "?ok [(''status'', PStr ''running'')]" "Some ''sid''" "[]"]
    by (simp add: gateway_port_zero_def raises_for_status_def dict_get_def dict_get_default_def)
  have e: "main_iteration gateway_status_empty (Some ''sid'') [] =
     \<lparr>pings = [PingStart, PingFail
        ''E:GLUETUN_PARSE | Missing 'port' or 'status' in Gluetun API response''],
      logged = ''E:GLUETUN_PARSE | Missing 'port' or 'status' in Gluetun API response'',
      next_session = None, requests_sent = []\<rparr>"
    using gluetun_falsy_fields [of gateway_status_empty "?ok [(''port'', PInt 51413)]"
        "?ok [(''status'', PStr [])]" "Some ''sid''" "[]"]
    by (simp add: gateway_status_empty_def raises_for_status_def dict_get_def
          dict_get_default_def)
  have a: "main_iteration gateway_fields_absent (Some ''sid'') [] =
     \<lparr>pings = [PingStart, PingFail
        ''E:GLUETUN_PARSE | Missing 'port' or 'status' in Gluetun API response''],
      logged = ''E:GLUETUN_PARSE | Missing 'port' or 'status' in Gluetun API response'',
      next_session = None, requests_sent = []\<rparr>"
    using gluetun_falsy_fields [of gateway_fields_absent "?ok []" "?ok []" "Some ''sid''" "[]"]
    by (simp add: gateway_fields_absent_def raises_for_status_def dict_get_def
          dict_get_default_def)
  from z e a show ?thesis by simp
qed

lemma post_rpc_renewal:
  assumes "d (log0 @ [POST (Some sid) method args]) = Replied r1"
    and "status_code r1 = 409"
    and "usable_id (session_id_header r1) = Some sid'"
  shows "post_rpc d sid log0 method args =
     (case d (log0 @ [POST (Some sid) method args, POST (Some sid') method args]) of
        Failed n m \<Rightarrow>
          (Inl (RequestException n m), Some sid',
           log0 @ [POST (Some sid) method args, POST (Some sid') method args])
      | Replied r2 \<Rightarrow>
          if raises_for_status r2
          then (Inl (HTTPError (status_code r2) (error_text r2)), Some sid',
                log0 @ [POST (Some sid) method args, POST (Some sid') method args])
          else (Inr (body r2), Some sid',
                log0 @ [POST (Some sid) method args, POST (Some sid') method args]))"
  using assms by (simp add: post_rpc_def Let_def raises_for_status_def)

lemma run_rpc_reaches_post:
  assumes "(session = Some sid \<and> log0 = log) \<or>
           (session = None \<and> d (log @ [GET None]) = Replied r0
              \<and> usable_id (session_id_header r0) = Some sid \<and> log0 = log @ [GET None])"
  shows "run_transmission_rpc d session log method args = post_rpc d sid log0 method args"
  using assms
  by (auto simp: run_transmission_rpc_def get_transmission_session_id_def Let_def)

text \<open>
  Claim C3. Let the session have a token, or get one with the initial GET. If the
  first POST is answered with 409 and a usable new token, then exactly one more
  POST is sent, with the new token and the same method and arguments, and the
  session keeps the new token. If that second answer is no error, its body is
  returned; if it is a 409 again, the \<^verbatim>\<open>HTTPError\<close> of that answer is raised and
  nothing more is sent.
\<close>

theorem renewal_exactly_once:
  "((session = Some sid \<and> log0 = log) \<or>
    (session = None \<and> d (log @ [GET None]) = Replied r0
       \<and> usable_id (session_id_header r0) = Some sid \<and> log0 = log @ [GET None]))
   \<and> d (log0 @ [POST (Some sid) method args]) = Replied r1
   \<and> status_code r1 = 409 \<and> usable_id (session_id_header r1) = Some sid'
   \<and> log2 = log0 @ [POST (Some sid) method args, POST (Some sid') method args]
   \<and> d log2 = Replied r2
   \<longrightarrow> (\<not> raises_for_status r2 \<longrightarrow>
          run_transmission_rpc d session log method args = (Inr (body r2), Some sid', log2))
     \<and> (status_code r2 = 409 \<longrightarrow>
          run_transmission_rpc d session log method args =
            (Inl (HTTPError 409 (error_text r2)), Some sid', log2))"
proof (intro impI)
  assume a: "((session = Some sid \<and> log0 = log) \<or>
    (session = None \<and> d (log @ [GET None]) = Replied r0
       \<and> usable_id (session_id_header r0) = Some sid \<and> log0 = log @ [GET None]))
   \<and> d (log0 @ [POST (Some sid) method args]) = Replied r1
   \<and> status_code r1 = 409 \<and> usable_id (session_id_header r1) = Some sid'
   \<and> log2 = log0 @ [POST (Some sid) method args, POST (Some sid') method args]
   \<and> d log2 = Replied r2"
  then have start: "(session = Some sid \<and> log0 = log) \<or>
    (session = None \<and> d (log @ [GET None]) = Replied r0
       \<and> usable_id (session_id_header r0) = Some sid \<and> log0 = log @ [GET None])"
    by blast
  from a have first: "d (log0 @ [POST (Some sid) method args]) = Replied r1"
    "status_code r1 = 409" "usable_id (session_id_header r1) = Some sid'"
    by blast+
  from a have second:
    "d (log0 @ [POST (Some sid) method args, POST (Some sid') method args]) = Replied r2"
    "log2 = log0 @ [POST (Some sid) method args, POST (Some sid') method args]"
    by blast+
  have "run_transmission_rpc d session log method args =
      (if raises_for_status r2
       then (Inl (HTTPError (status_code r2) (error_text r2)), Some sid', log2)
       else (Inr (body r2), Some sid', log2))"
    using run_rpc_reaches_post [of session sid log0 log d r0 "method" "args", OF start]
      post_rpc_renewal [of d log0 sid "method" "args" r1 sid', OF first] second
    by simp
  then show "(\<not> raises_for_status r2 \<longrightarrow>
          run_transmission_rpc d session log method args = (Inr (body r2), Some sid', log2))
     \<and> (status_code r2 = 409 \<longrightarrow>
          run_transmission_rpc d session log method args =
            (Inl (HTTPError 409 (error_text r2)), Some sid', log2))"
    by (simp add: raises_for_status_def)
qed

text \<open>
  Instances of C3: a daemon whose first answer is a 409, and one that always
  answers 409.
\<close>

theorem renewal_exactly_once_witness:
  "run_transmission_rpc expired_daemon (Some ''stale-id'') [] ''session-stats'' [] =
     (Inr example_session_stats, Some ''fresh-id'',
      [POST (Some ''stale-id'') ''session-stats'' [],
       POST (Some ''fresh-id'') ''session-stats'' []])
   \<and> run_transmission_rpc conflicting_daemon None [] ''session-stats'' [] =
     (Inl (HTTPError 409 ''409 Client Error: Conflict''), Some ''fresh-id'',
      [GET None, POST (Some ''fresh-id'') ''session-stats'' [],
       POST (Some ''fresh-id'') ''session-stats'' []])"
proof -
  have 1: "run_transmission_rpc expired_daemon (Some ''stale-id'') [] ''session-stats'' [] =
     (Inr example_session_stats, Some ''fresh-id'',
      [POST (Some ''stale-id'') ''session-stats'' [],
       POST (Some ''fresh-id'') ''session-stats'' []])"
    using renewal_exactly_once [of "Some ''stale-id''" "''stale-id''" "[]" "[]" expired_daemon _
        "''session-stats''" "[]" conflict_response "''fresh-id''"
        "[POST (Some ''stale-id'') ''session-stats'' [],
          POST (Some ''fresh-id'') ''session-stats'' []]"
        "\<lparr>status_code = 200, session_id_header = None, error_text = [],
          body = example_session_stats\<rparr>"]
    by (simp add: expired_daemon_def conflict_response_def raises_for_status_def)
  have 2: "run_transmission_rpc conflicting_daemon None [] ''session-stats'' [] =
     (Inl (HTTPError 409 ''409 Client Error: Conflict''), Some ''fresh-id'',
      [GET None, POST (Some ''fresh-id'') ''session-stats'' [],
       POST (Some ''fresh-id'') ''session-stats'' []])"
    using renewal_exactly_once [of None "''fresh-id''" "[GET None]" "[]" conflicting_daemon
        conflict_response "''session-stats''" "[]" conflict_response "''fresh-id''"
        "[GET None, POST (Some ''fresh-id'') ''session-stats'' [],
          POST (Some ''fresh-id'') ''session-stats'' []]"
        conflict_response]
    by (simp add: conflicting_daemon_def conflict_response_def)
  from 1 2 show ?thesis by simp
qed

end
